theory Spec2Isabelle
  imports Main "HOL-Library.Char_ord" "HOL-Library.List_Lexorder" "HOL-Library.Multiset"
    "HOL-Library.AList"
begin

section \<open>The command registry of \<^verbatim>\<open>ix/commands/registry.py\<close>\<close>

text \<open>
  The module defines \<^verbatim>\<open>get_function_signature\<close>, the class \<^verbatim>\<open>Command\<close>, the class
  \<^verbatim>\<open>CommandRegistry\<close> and the decorator \<^verbatim>\<open>command\<close>. Each of them is embedded below
  under its own name. Exceptions are values of the type \<open>error\<close>; a Python \<^verbatim>\<open>dict\<close> is the
  array of entries CPython keeps for it, in insertion order; strings are compared
  bytewise, which on UTF-8 agrees with Python's comparison by code point.
\<close>

subsection \<open>Exceptions\<close>

text \<open>
  \<open>KeyError\<close> and \<open>RuntimeError\<close> are the exceptions the module and the dictionary it
  iterates over raise themselves, \<open>AttributeError\<close> is the failure of an attribute
  access, \<open>TypeError\<close> the failure to bind the arguments of a call to the parameters of
  the function called, and \<open>Raised\<close> stands for any other exception that external code
  (the module loader, a command's implementation, a plugin's constructor) lets escape.
\<close>

datatype error =
    KeyError string
  | RuntimeError string
  | AttributeError string
  | TypeError string
  | Raised string

subsection \<open>Strings\<close>

text \<open>\<^verbatim>\<open>sep.join(xs)\<close>\<close>

fun join :: "string \<Rightarrow> string list \<Rightarrow> string" where
  "join sep [] = []"
| "join sep [x] = x"
| "join sep (x # y # ys) = x @ sep @ join sep (y # ys)"

text \<open>The decimal rendering of a natural number, as an f-string prints it.\<close>

definition digit :: "nat \<Rightarrow> char" where
  "digit d = ''0123456789'' ! d"

fun str_nat :: "nat \<Rightarrow> string" where
  "str_nat n = (if n < 10 then [digit n] else str_nat (n div 10) @ [digit (n mod 10)])"

declare str_nat.simps [simp del]

definition newline :: string where
  "newline = [CHR 0x0A]"

subsection \<open>Callables and their declared parameters\<close>

text \<open>
  An annotation is an arbitrary Python object. \<^verbatim>\<open>get_function_signature\<close> looks at two
  things only: whether the object has a \<^verbatim>\<open>__name__\<close> attribute (and its value), and what
  \<^verbatim>\<open>str\<close> makes of it.
\<close>

record annotation =
  dunder_name :: "string option"
  str_of :: string

text \<open>
  \<^verbatim>\<open>inspect.Parameter.empty\<close>, the annotation \<^verbatim>\<open>inspect.signature\<close> reports for a parameter
  declared without a type. It is the class \<^verbatim>\<open>inspect._empty\<close>, and a class has a
  \<^verbatim>\<open>__name__\<close>.
\<close>

definition Parameter_empty :: annotation where
  "Parameter_empty =
     \<lparr>dunder_name = Some ''_empty'', str_of = ''<class 'inspect._empty'>''\<rparr>"

text \<open>The builtin class \<^verbatim>\<open>int\<close>.\<close>

definition int_class :: annotation where
  "int_class = \<lparr>dunder_name = Some ''int'', str_of = ''<class 'int'>''\<rparr>"

record parameter =
  param_name :: string
  param_annotation :: annotation

text \<open>What \<^verbatim>\<open>inspect.signature(func)\<close> returns: the parameters in declaration order and
  the return annotation.\<close>

record py_signature =
  parameters :: "parameter list"
  return_annotation :: annotation

text \<open>
  A callable: the result of \<^verbatim>\<open>inspect.signature\<close> on it (which raises for objects that
  have no retrievable signature), and what calling it does. A call takes the positional
  and the keyword arguments and the state \<open>'w\<close> of everything outside the registry, and
  returns a value or raises, with the state it leaves behind. Binding the arguments to
  the callable's own parameters is part of that behaviour.
\<close>

type_synonym ('v, 'w) behaviour =
  "'v list \<Rightarrow> (string \<times> 'v) list \<Rightarrow> 'w \<Rightarrow> (error + 'v) \<times> 'w"

record ('v, 'w) callable =
  inspect_signature :: "error + py_signature"
  body :: "('v, 'w) behaviour"

definition render_parameter :: "parameter \<Rightarrow> string" where
  "render_parameter param =
     param_name param @ '': '' @
       (case dunder_name (param_annotation param) of
          Some n \<Rightarrow> n
        | None \<Rightarrow> str_of (param_annotation param))"

definition get_function_signature :: "('v, 'w) callable \<Rightarrow> error + string" where
  "get_function_signature func =
     (case inspect_signature func of
        Inl e \<Rightarrow> Inl e
      | Inr sig \<Rightarrow> Inr (join '', '' (map render_parameter (parameters sig))))"

subsection \<open>The class \<^verbatim>\<open>Command\<close>\<close>

text \<open>
  \<open>dunder_module\<close> is what \<^verbatim>\<open>cmd.__module__\<close> evaluates to: the name of the module that
  defines the class of \<^verbatim>\<open>cmd\<close>. For an instance of \<^verbatim>\<open>Command\<close> itself this is the
  registry's own module.
\<close>

record ('v, 'w) Command =
  name :: string
  description :: string
  "method" :: "('v, 'w) callable"
  signature :: string
  dunder_module :: string

definition registry_module_name :: string where
  "registry_module_name = ''ix.commands.registry''"

text \<open>
  \<^verbatim>\<open>Command.__init__\<close>. The argument \<^verbatim>\<open>signature\<close> defaults to \<^verbatim>\<open>None\<close>; \<^verbatim>\<open>None\<close> and the
  empty string are both falsy, and then the signature is derived from the method.
\<close>

definition Command_init ::
  "string \<Rightarrow> string \<Rightarrow> ('v, 'w) callable \<Rightarrow> string option \<Rightarrow> error + ('v, 'w) Command" where
  "Command_init n d m sig =
     (case (case sig of
              Some s \<Rightarrow> if s \<noteq> [] then Inr s else get_function_signature m
            | None \<Rightarrow> get_function_signature m) of
        Inl e \<Rightarrow> Inl e
      | Inr s \<Rightarrow>
          Inr \<lparr>name = n, description = d, method = m, signature = s,
               dunder_module = registry_module_name\<rparr>)"

text \<open>
  A call \<^verbatim>\<open>f(a, ..., **kwargs)\<close> fills the leading parameters of \<^verbatim>\<open>f\<close> by position. A
  keyword that names one of these parameters then gives it a second value: Python raises
  \<^verbatim>\<open>TypeError\<close> for the first such keyword, before the body of \<^verbatim>\<open>f\<close> runs. The other
  keywords are what \<^verbatim>\<open>**kwargs\<close> collects.
\<close>

definition multiple_values :: "string \<Rightarrow> string \<Rightarrow> error" where
  "multiple_values f k =
     TypeError (f @ ''() got multiple values for argument '' @ [CHR 0x27] @ k @ [CHR 0x27])"

definition bind_keywords :: "string \<Rightarrow> string list \<Rightarrow> (string \<times> 'v) list \<Rightarrow> error option" where
  "bind_keywords f filled kwargs =
     (case find (\<lambda>k. k \<in> set filled) (map fst kwargs) of
        None \<Rightarrow> None
      | Some k \<Rightarrow> Some (multiple_values f k))"

text \<open>
  \<^verbatim>\<open>Command.__call__(self, *args, **kwargs)\<close>: \<^verbatim>\<open>self\<close> is filled by the call itself, the
  positional arguments go to \<^verbatim>\<open>*args\<close>.
\<close>

definition Command_call :: "('v, 'w) Command \<Rightarrow> ('v, 'w) behaviour" where
  "Command_call self args kwargs w =
     (case bind_keywords ''Command.__call__'' [''self''] kwargs of
        Some e \<Rightarrow> (Inl e, w)
      | None \<Rightarrow> body (method self) args kwargs w)"

text \<open>\<^verbatim>\<open>Command.__str__\<close>\<close>

definition Command_str :: "('v, 'w) Command \<Rightarrow> string" where
  "Command_str self = name self @ ''('' @ signature self @ '')''"

subsection \<open>Dictionaries\<close>

text \<open>
  A \<^verbatim>\<open>dict\<close> of CPython (3.8 or later) keeps an array of entries in insertion order.
  Deleting a key empties its entry where it stands (\<open>None\<close> below); assigning to a key that
  is present replaces the value in its entry; assigning to a new key appends an entry.
  \<open>dk_usable\<close> counts the entries that can still be appended: when it is zero, the table
  is rebuilt before the new entry is appended, which drops the emptied entries and gives
  room according to the number of keys present.
\<close>

record ('k, 'a) dict =
  dk_entries :: "('k \<times> 'a) option list"
  dk_usable :: nat

text \<open>The entries present, in order: \<^verbatim>\<open>d.items()\<close>; and their number, \<^verbatim>\<open>len(d)\<close>.\<close>

definition items :: "('k, 'a) dict \<Rightarrow> ('k \<times> 'a) list" where
  "items d = List.map_filter (\<lambda>e. e) (dk_entries d)"

definition dict_len :: "('k, 'a) dict \<Rightarrow> nat" where
  "dict_len d = length (items d)"

text \<open>\<^verbatim>\<open>{}\<close>: no table is allocated yet.\<close>

definition dict_new :: "('k, 'a) dict" where
  "dict_new = \<lparr>dk_entries = [], dk_usable = 0\<rparr>"

fun replace_value :: "('k \<times> 'a) option list \<Rightarrow> 'k \<Rightarrow> 'a \<Rightarrow> ('k \<times> 'a) option list" where
  "replace_value [] k v = []"
| "replace_value (None # es) k v = None # replace_value es k v"
| "replace_value (Some (k', v') # es) k v =
     (if k' = k then Some (k, v) # es else Some (k', v') # replace_value es k v)"

text \<open>
  The size of a rebuilt table is the least power of two, from 8 on, that is not below
  three times the number of keys present; two thirds of a table are usable.
\<close>

function log2_keysize :: "nat \<Rightarrow> nat \<Rightarrow> nat" where
  "log2_keysize l minsize = (if minsize \<le> 2 ^ l then l else log2_keysize (Suc l) minsize)"
  by pat_completeness auto
termination
  by (relation "measure (\<lambda>(l, minsize). minsize - 2 ^ l)") (auto intro!: diff_less_mono2)

declare log2_keysize.simps [simp del]

definition dict_resize :: "('k, 'a) dict \<Rightarrow> ('k, 'a) dict" where
  "dict_resize d =
     (let present = items d; size = 2 ^ log2_keysize 3 (3 * length present)
      in \<lparr>dk_entries = map Some present, dk_usable = (2 * size) div 3 - length present\<rparr>)"

definition dict_contains :: "('k, 'a) dict \<Rightarrow> 'k \<Rightarrow> bool" where
  "dict_contains d k = (k \<in> set (map fst (items d)))"

definition dict_setitem :: "('k, 'a) dict \<Rightarrow> 'k \<Rightarrow> 'a \<Rightarrow> ('k, 'a) dict" where
  "dict_setitem d k v =
     (if dict_contains d k then d\<lparr>dk_entries := replace_value (dk_entries d) k v\<rparr>
      else
        (let d' = (if dk_usable d = 0 then dict_resize d else d)
         in \<lparr>dk_entries = dk_entries d' @ [Some (k, v)], dk_usable = dk_usable d' - 1\<rparr>))"

definition dict_delitem :: "('k, 'a) dict \<Rightarrow> 'k \<Rightarrow> ('k, 'a) dict" where
  "dict_delitem d k =
     d\<lparr>dk_entries :=
         map (\<lambda>e. case e of None \<Rightarrow> None | Some (k', v) \<Rightarrow> if k' = k then None else e)
           (dk_entries d)\<rparr>"

definition dict_getitem :: "(string, 'a) dict \<Rightarrow> string \<Rightarrow> error + 'a" where
  "dict_getitem d k = (case map_of (items d) k of None \<Rightarrow> Inl (KeyError k) | Some v \<Rightarrow> Inr v)"

text \<open>
  The iterator of a dictionary looks for the next entry from its position on, skipping
  the emptied ones; the result is the index of the entry found and the entry.
\<close>

fun scan :: "'e option list \<Rightarrow> nat \<Rightarrow> (nat \<times> 'e) option" where
  "scan [] i = None"
| "scan (None # es) i = scan es (Suc i)"
| "scan (Some e # es) i = Some (i, e)"

definition next_entry :: "('k, 'a) dict \<Rightarrow> nat \<Rightarrow> (nat \<times> 'k \<times> 'a) option" where
  "next_entry d di_pos = scan (drop di_pos (dk_entries d)) di_pos"

subsection \<open>The class \<^verbatim>\<open>CommandRegistry\<close>: registration, lookup, dispatch, listing\<close>

record ('v, 'w) CommandRegistry =
  commands :: "(string, ('v, 'w) Command) dict"

definition CommandRegistry_init :: "('v, 'w) CommandRegistry" where
  "CommandRegistry_init = \<lparr>commands = dict_new\<rparr>"

definition register :: "('v, 'w) CommandRegistry \<Rightarrow> ('v, 'w) Command \<Rightarrow> ('v, 'w) CommandRegistry" where
  "register self cmd = self\<lparr>commands := dict_setitem (commands self) (name cmd) cmd\<rparr>"

definition not_found :: "string \<Rightarrow> error" where
  "not_found command_name =
     KeyError (''Command '' @ [CHR 0x27] @ command_name @ [CHR 0x27] @ '' not found in registry.'')"

definition unregister ::
  "('v, 'w) CommandRegistry \<Rightarrow> string \<Rightarrow> error + ('v, 'w) CommandRegistry" where
  "unregister self command_name =
     (if dict_contains (commands self) command_name
      then Inr (self\<lparr>commands := dict_delitem (commands self) command_name\<rparr>)
      else Inl (not_found command_name))"

definition get :: "('v, 'w) CommandRegistry \<Rightarrow> string \<Rightarrow> error + ('v, 'w) Command" where
  "get self n = dict_getitem (commands self) n"

text \<open>
  \<^verbatim>\<open>call(self, command_name, **kwargs)\<close>: \<^verbatim>\<open>self\<close> and \<^verbatim>\<open>command_name\<close> are filled by the
  call; \<open>kwargs\<close> are the other keywords of the call.
\<close>

definition call ::
  "('v, 'w) CommandRegistry \<Rightarrow> string \<Rightarrow> (string \<times> 'v) list \<Rightarrow> 'w \<Rightarrow> (error + 'v) \<times> 'w" where
  "call self command_name kwargs w =
     (case bind_keywords ''CommandRegistry.call'' [''self'', ''command_name''] kwargs of
        Some e \<Rightarrow> (Inl e, w)
      | None \<Rightarrow>
          (if \<not> dict_contains (commands self) command_name
           then (Inl (not_found command_name), w)
           else (case dict_getitem (commands self) command_name of
                   Inl e \<Rightarrow> (Inl e, w)
                 | Inr command \<Rightarrow> Command_call command [] kwargs w)))"

definition prompt_line :: "nat \<times> ('v, 'w) Command \<Rightarrow> string" where
  "prompt_line p = str_nat (fst p + 1) @ ''. '' @ Command_str (snd p)"

definition command_prompt :: "('v, 'w) CommandRegistry \<Rightarrow> string" where
  "command_prompt self =
     (let cmds = sort_key name (map snd (items (commands self)))
      in join newline (map prompt_line (enumerate 0 cmds)))"

subsection \<open>Plugin modules and the module loader\<close>

text \<open>
  What \<^verbatim>\<open>import_commands\<close> asks of an attribute of a module:
  whether it has an attribute \<^verbatim>\<open>ix_command\<close> (and whether that is the object \<^verbatim>\<open>True\<close>),
  what its attribute \<^verbatim>\<open>command\<close> is, and whether it is a class, and then which:
  \<^verbatim>\<open>Command\<close> itself, a proper subclass of it (with what calling the class without
  arguments gives), or another class.
\<close>

datatype ('v, 'w) class_kind =
    Command_class
  | Command_subclass "error + ('v, 'w) Command"
  | Other_class

record ('v, 'w) member =
  ix_command :: "bool option"
  command_attr :: "('v, 'w) Command option"
  as_class :: "('v, 'w) class_kind option"
  on_call :: "('v, 'w) behaviour option"

text \<open>
  A module's function \<^verbatim>\<open>register(registry)\<close>, called during a reload. It is code of the
  plugin. Given the registry as it finds it, it makes calls of \<^verbatim>\<open>registry.register\<close> and
  \<^verbatim>\<open>registry.unregister\<close> in some order, and then returns or raises an exception of its
  own. An exception of \<^verbatim>\<open>unregister\<close> ends it at that call.
\<close>

datatype ('v, 'w) registry_call =
    Register "('v, 'w) Command"
  | Unregister string

type_synonym ('v, 'w) entry_point =
  "('v, 'w) CommandRegistry \<Rightarrow> ('v, 'w) registry_call list \<times> error option"

fun run_calls ::
  "('v, 'w) CommandRegistry \<Rightarrow> ('v, 'w) registry_call list
     \<Rightarrow> error option \<times> ('v, 'w) CommandRegistry" where
  "run_calls registry [] = (None, registry)"
| "run_calls registry (Register cmd # rest) = run_calls (register registry cmd) rest"
| "run_calls registry (Unregister n # rest) =
     (case unregister registry n of
        Inl e \<Rightarrow> (Some e, registry)
      | Inr registry' \<Rightarrow> run_calls registry' rest)"

text \<open>
  A module object: its \<^verbatim>\<open>__name__\<close>, its attributes in the order \<^verbatim>\<open>dir(module)\<close> lists
  them, each with the object \<^verbatim>\<open>getattr\<close> returns, and its attribute \<^verbatim>\<open>register\<close> when it
  has one.
\<close>

record ('v, 'w) pymodule =
  mod_name :: string
  attrs :: "(string \<times> ('v, 'w) member) list"
  register_attr :: "('v, 'w) entry_point option"

text \<open>
  \<^verbatim>\<open>importlib.import_module\<close> and \<^verbatim>\<open>importlib.reload\<close> are not part of the repository;
  they are parameters of the model. Either may raise.
\<close>

record ('v, 'w) loader =
  import_module :: "string \<Rightarrow> error + ('v, 'w) pymodule"
  reload :: "('v, 'w) pymodule \<Rightarrow> error + ('v, 'w) pymodule"

text \<open>
  The calls a registry operation makes to the loader and to entry points, in order: an
  operation returns them with its result.
\<close>

datatype event =
    Import_module string
  | Reload_module string
  | Call_register string

text \<open>
  An operation that mutates the registry either returns or raises; in both cases the
  registry is left in some state and some calls have been made.
\<close>

datatype ('v, 'w) outcome =
    Returns "('v, 'w) CommandRegistry" "event list"
  | Raises error "('v, 'w) CommandRegistry" "event list"

fun registry_of :: "('v, 'w) outcome \<Rightarrow> ('v, 'w) CommandRegistry" where
  "registry_of (Returns r evs) = r"
| "registry_of (Raises e r evs) = r"

fun events_of :: "('v, 'w) outcome \<Rightarrow> event list" where
  "events_of (Returns r evs) = evs"
| "events_of (Raises e r evs) = evs"

fun after :: "event list \<Rightarrow> ('v, 'w) outcome \<Rightarrow> ('v, 'w) outcome" where
  "after evs (Returns r evs') = Returns r (evs @ evs')"
| "after evs (Raises e r evs') = Raises e r (evs @ evs')"

subsection \<open>\<^verbatim>\<open>import_commands\<close> and \<^verbatim>\<open>for_tools\<close>\<close>

text \<open>The loop over \<^verbatim>\<open>dir(module)\<close>; the result is the exception, if any, and the registry.\<close>

fun import_attrs ::
  "('v, 'w) CommandRegistry \<Rightarrow> (string \<times> ('v, 'w) member) list
     \<Rightarrow> error option \<times> ('v, 'w) CommandRegistry" where
  "import_attrs self [] = (None, self)"
| "import_attrs self ((attr_name, attr) # rest) =
     (if ix_command attr = Some True then
        (case command_attr attr of
           None \<Rightarrow> (Some (AttributeError ''command''), self)
         | Some c \<Rightarrow> import_attrs (register self c) rest)
      else
        (case as_class attr of
           Some (Command_subclass inst) \<Rightarrow>
             (case inst of
                Inl e \<Rightarrow> (Some e, self)
              | Inr cmd_instance \<Rightarrow> import_attrs (register self cmd_instance) rest)
         | _ \<Rightarrow> import_attrs self rest))"

definition import_commands ::
  "('v, 'w) loader \<Rightarrow> ('v, 'w) CommandRegistry \<Rightarrow> string \<Rightarrow> ('v, 'w) outcome" where
  "import_commands L self mname =
     (case import_module L mname of
        Inl e \<Rightarrow> Raises e self [Import_module mname]
      | Inr module \<Rightarrow>
          (case import_attrs self (attrs module) of
             (None, self') \<Rightarrow> Returns self' [Import_module mname]
           | (Some e, self') \<Rightarrow> Raises e self' [Import_module mname]))"

text \<open>The loop of \<^verbatim>\<open>for_tools\<close> over the registry it has just made.\<close>

fun import_all ::
  "('v, 'w) loader \<Rightarrow> ('v, 'w) CommandRegistry \<Rightarrow> string list \<Rightarrow> ('v, 'w) outcome" where
  "import_all L tool_registry [] = Returns tool_registry []"
| "import_all L tool_registry (class_path # rest) =
     (case import_commands L tool_registry class_path of
        Raises e r evs \<Rightarrow> Raises e r evs
      | Returns r evs \<Rightarrow> after evs (import_all L r rest))"

text \<open>
  \<^verbatim>\<open>for_tools\<close>; \<^verbatim>\<open>tools or []\<close> makes \<^verbatim>\<open>None\<close> the empty list. When the outcome is
  \<open>Raises\<close>, its registry is the local \<^verbatim>\<open>tool_registry\<close> at that moment, which the caller
  does not receive.
\<close>

definition for_tools :: "('v, 'w) loader \<Rightarrow> string list option \<Rightarrow> ('v, 'w) outcome" where
  "for_tools L tools =
     import_all L CommandRegistry_init (case tools of None \<Rightarrow> [] | Some ts \<Rightarrow> ts)"

subsection \<open>\<^verbatim>\<open>reload_commands\<close>\<close>

text \<open>The body of the loop, for the key \<open>cmd_name\<close>.\<close>

definition reload_step ::
  "('v, 'w) loader \<Rightarrow> ('v, 'w) CommandRegistry \<Rightarrow> string \<Rightarrow> ('v, 'w) outcome" where
  "reload_step L self cmd_name =
     (case dict_getitem (commands self) cmd_name of
        Inl e \<Rightarrow> Raises e self []
      | Inr cmd \<Rightarrow>
          (case import_module L (dunder_module cmd) of
             Inl e \<Rightarrow> Raises e self [Import_module (dunder_module cmd)]
           | Inr module \<Rightarrow>
               (case reload L module of
                  Inl e \<Rightarrow>
                    Raises e self
                      [Import_module (dunder_module cmd), Reload_module (mod_name module)]
                | Inr reloaded_module \<Rightarrow>
                    (case register_attr reloaded_module of
                       None \<Rightarrow>
                         Returns self
                           [Import_module (dunder_module cmd), Reload_module (mod_name module)]
                     | Some ep \<Rightarrow>
                         (let evs = [Import_module (dunder_module cmd),
                                     Reload_module (mod_name module),
                                     Call_register (mod_name reloaded_module)]
                          in case run_calls self (fst (ep self)) of
                               (Some e, self') \<Rightarrow> Raises e self' evs
                             | (None, self') \<Rightarrow>
                                 (case snd (ep self) of
                                    None \<Rightarrow> Returns self' evs
                                  | Some e \<Rightarrow> Raises e self' evs))))))"

text \<open>
  \<^verbatim>\<open>for cmd_name in self.commands\<close> iterates over the dictionary itself. The iterator
  remembers the number of keys the dictionary had when the loop began (\<open>di_used\<close>), its
  own position in the array of entries (\<open>di_pos\<close>) and how many keys it has still to
  yield (\<open>len\<close>). Each time the loop asks for the next key, the iterator first compares
  the present number of keys with \<open>di_used\<close> and raises \<^verbatim>\<open>RuntimeError\<close> when they
  differ. Otherwise it looks for the next entry from \<open>di_pos\<close> on: when there is none the
  loop ends; when there is one although \<open>len\<close> is zero it raises \<^verbatim>\<open>RuntimeError\<close> too;
  otherwise it yields the key and moves behind that entry.
\<close>

definition changed_size :: error where
  "changed_size = RuntimeError ''dictionary changed size during iteration''"

definition changed_keys :: error where
  "changed_keys = RuntimeError ''dictionary keys changed during iteration''"

function reload_iter ::
  "('v, 'w) loader \<Rightarrow> nat \<Rightarrow> nat \<Rightarrow> nat \<Rightarrow> ('v, 'w) CommandRegistry \<Rightarrow> ('v, 'w) outcome" where
  "reload_iter L di_used di_pos len self =
     (if di_used \<noteq> dict_len (commands self) then Raises changed_size self []
      else
        (case next_entry (commands self) di_pos of
           None \<Rightarrow> Returns self []
         | Some (i, cmd_name, _) \<Rightarrow>
             if len = 0 then Raises changed_keys self []
             else
               (case reload_step L self cmd_name of
                  Raises e r evs \<Rightarrow> Raises e r evs
                | Returns r evs \<Rightarrow> after evs (reload_iter L di_used (Suc i) (len - 1) r))))"
  by pat_completeness auto
termination
  by (relation "measure (\<lambda>(L, di_used, di_pos, len, self). len)") auto

declare reload_iter.simps [simp del]

definition reload_commands ::
  "('v, 'w) loader \<Rightarrow> ('v, 'w) CommandRegistry \<Rightarrow> ('v, 'w) outcome" where
  "reload_commands L self =
     reload_iter L (dict_len (commands self)) 0 (dict_len (commands self)) self"

subsection \<open>The decorator \<^verbatim>\<open>command\<close>\<close>

text \<open>
  \<^verbatim>\<open>command(name, description, signature)(func)\<close> builds the \<^verbatim>\<open>Command\<close> and returns a
  wrapper that calls \<^verbatim>\<open>func\<close>, carries the \<^verbatim>\<open>Command\<close> as its attribute \<^verbatim>\<open>command\<close> and has
  \<^verbatim>\<open>ix_command\<close> set to \<^verbatim>\<open>True\<close>. A function is not a class.
\<close>

definition command ::
  "string \<Rightarrow> string \<Rightarrow> string option \<Rightarrow> ('v, 'w) callable \<Rightarrow> error + ('v, 'w) member" where
  "command n d sig func =
     (case Command_init n d func sig of
        Inl e \<Rightarrow> Inl e
      | Inr cmd \<Rightarrow>
          Inr \<lparr>ix_command = Some True, command_attr = Some cmd, as_class = None,
               on_call = Some (body func)\<rparr>)"

subsection \<open>Notions the properties are stated with\<close>

text \<open>The errors that mean "no such command": Python's \<^verbatim>\<open>KeyError\<close>.\<close>

fun is_NotFound :: "error \<Rightarrow> bool" where
  "is_NotFound (KeyError m) = True"
| "is_NotFound e = False"

text \<open>Every key of the mapping is the name of the command stored under it.\<close>

definition keys_are_names :: "('v, 'w) CommandRegistry \<Rightarrow> bool" where
  "keys_are_names r = (\<forall>(k, c) \<in> set (items (commands r)). k = name c)"

text \<open>What the function \<^verbatim>\<open>register\<close> of a module does when it is called with a registry, if the
  module has one.\<close>

definition entry_point_calls ::
  "('v, 'w) pymodule \<Rightarrow> ('v, 'w) CommandRegistry
     \<Rightarrow> (('v, 'w) registry_call list \<times> error option) option" where
  "entry_point_calls m r = (case register_attr m of None \<Rightarrow> None | Some ep \<Rightarrow> Some (ep r))"


text \<open>
  The commands discoverable in a unit: the mapping a fresh registry holds after importing
  that unit alone.
\<close>

definition unit_commands :: "('v, 'w) loader \<Rightarrow> string \<Rightarrow> (string \<rightharpoonup> ('v, 'w) Command)" where
  "unit_commands L m =
     map_of (items (commands (registry_of (import_commands L CommandRegistry_init m))))"

text \<open>
  The rendering of a signature as the specification words it: each parameter as its name,
  a colon and its type, with a fixed marker in place of the type of an untyped parameter,
  joined by a comma and a space. The marker is a parameter of the definition.
\<close>

definition type_display :: "annotation \<Rightarrow> string" where
  "type_display a = (case dunder_name a of Some n \<Rightarrow> n | None \<Rightarrow> str_of a)"

definition spec_render_parameter :: "string \<Rightarrow> parameter \<Rightarrow> string" where
  "spec_render_parameter marker p =
     param_name p @ '': '' @
       (if param_annotation p = Parameter_empty then marker
        else type_display (param_annotation p))"

definition spec_signature :: "string \<Rightarrow> parameter list \<Rightarrow> string" where
  "spec_signature marker ps = join '', '' (map (spec_render_parameter marker) ps)"

subsection \<open>Example plugins\<close>

text \<open>
  The examples take integers as values and, as the state outside the registry, the list
  of the implementations that have run.
\<close>

text \<open>
  Binding the arguments of a call to the parameters of a plain function: positional
  arguments fill the parameters from the left, every other parameter takes the keyword
  of its name; too many arguments, two values for a parameter, a parameter without a
  value or a keyword that names no parameter make the call fail.
\<close>

fun bind_params :: "string list \<Rightarrow> 'v list \<Rightarrow> (string \<times> 'v) list \<Rightarrow> 'v list option" where
  "bind_params [] [] kwargs = (if kwargs = [] then Some [] else None)"
| "bind_params [] (a # args) kwargs = None"
| "bind_params (p # ps) (a # args) kwargs =
     (if p \<in> set (map fst kwargs) then None
      else map_option ((#) a) (bind_params ps args kwargs))"
| "bind_params (p # ps) [] kwargs =
     (case map_of kwargs p of
        None \<Rightarrow> None
      | Some v \<Rightarrow> map_option ((#) v) (bind_params ps [] (AList.delete p kwargs)))"

text \<open>\<^verbatim>\<open>def add(x: int, y) -> int: return x + y\<close>\<close>

definition add_signature :: py_signature where
  "add_signature =
     \<lparr>parameters =
        [\<lparr>param_name = ''x'', param_annotation = int_class\<rparr>,
         \<lparr>param_name = ''y'', param_annotation = Parameter_empty\<rparr>],
      return_annotation = int_class\<rparr>"

definition add_body :: "(int, string list) behaviour" where
  "add_body args kwargs w =
     (case bind_params [''x'', ''y''] args kwargs of
        Some [x, y] \<Rightarrow> (Inr (x + y), w @ [''add''])
      | _ \<Rightarrow> (Inl (TypeError ''add()''), w))"

definition add_method :: "(int, string list) callable" where
  "add_method = \<lparr>inspect_signature = Inr add_signature, body = add_body\<rparr>"

text \<open>\<^verbatim>\<open>def help(command_name): return command_name\<close>\<close>

definition help_body :: "(int, string list) behaviour" where
  "help_body args kwargs w =
     (case bind_params [''command_name''] args kwargs of
        Some [v] \<Rightarrow> (Inr v, w @ [''help''])
      | _ \<Rightarrow> (Inl (TypeError ''help()''), w))"

definition help_method :: "(int, string list) callable" where
  "help_method =
     \<lparr>inspect_signature =
        Inr \<lparr>parameters = [\<lparr>param_name = ''command_name'', param_annotation = Parameter_empty\<rparr>],
             return_annotation = Parameter_empty\<rparr>,
      body = help_body\<rparr>"

definition help_command :: "(int, string list) Command" where
  "help_command =
     \<lparr>name = ''help'', description = ''Explains a command.'', method = help_method,
      signature = ''command_name: _empty'', dunder_module = registry_module_name\<rparr>"

text \<open>An instance of \<^verbatim>\<open>Command\<close> itself, as the decorator makes them.\<close>

definition plain_command :: "string \<Rightarrow> string \<Rightarrow> (int, string list) Command" where
  "plain_command n d =
     \<lparr>name = n, description = d, method = add_method, signature = ''x: int, y: _empty'',
      dunder_module = registry_module_name\<rparr>"

text \<open>An instance of a subclass of \<^verbatim>\<open>Command\<close> that the module \<open>m\<close> defines.\<close>

definition subclass_command :: "string \<Rightarrow> string \<Rightarrow> (int, string list) Command" where
  "subclass_command m n =
     \<lparr>name = n, description = ''An example.'', method = add_method, signature = ''x: int'',
      dunder_module = m\<rparr>"

definition plain_function :: "(int, string list) member" where
  "plain_function =
     \<lparr>ix_command = None, command_attr = None, as_class = None,
      on_call = Some (\<lambda>args kwargs w. (Inr 0, w))\<rparr>"

definition class_member :: "(int, string list) class_kind \<Rightarrow> (int, string list) member" where
  "class_member k = \<lparr>ix_command = None, command_attr = None, as_class = Some k, on_call = None\<rparr>"

text \<open>
  The module \<^verbatim>\<open>plugin\<close>: a function \<^verbatim>\<open>greet\<close> under the decorator
  \<^verbatim>\<open>@command("greet", "Greets.")\<close>, and a function \<^verbatim>\<open>register(registry)\<close> that registers
  the command again with a new description.
\<close>

definition plugin_module :: "(int, string list) pymodule" where
  "plugin_module =
     \<lparr>mod_name = ''plugin'',
      attrs =
        (case command ''greet'' ''Greets.'' None add_method of
           Inl e \<Rightarrow> []
         | Inr wrapper \<Rightarrow> [(''greet'', wrapper), (''register'', plain_function)]),
      register_attr =
        Some (\<lambda>registry. ([Register (plain_command ''greet'' ''Greets twice.'')], None))\<rparr>"

text \<open>
  The module \<^verbatim>\<open>tools\<close>: a subclass \<^verbatim>\<open>Echo\<close> of \<^verbatim>\<open>Command\<close>, and a function
  \<^verbatim>\<open>register(registry)\<close> that registers an \<^verbatim>\<open>Echo\<close> and a command named \<^verbatim>\<open>more\<close>.
\<close>

definition tools_module :: "(int, string list) pymodule" where
  "tools_module =
     \<lparr>mod_name = ''tools'',
      attrs = [(''Echo'', class_member (Command_subclass (Inr (subclass_command ''tools'' ''echo''))))],
      register_attr =
        Some (\<lambda>registry.
          ([Register (subclass_command ''tools'' ''echo''),
            Register (subclass_command ''tools'' ''more'')], None))\<rparr>"

text \<open>
  The module \<^verbatim>\<open>failing\<close>: a subclass \<^verbatim>\<open>Echo\<close> of \<^verbatim>\<open>Command\<close>, and a function
  \<^verbatim>\<open>register(registry)\<close> that registers a command named \<^verbatim>\<open>more\<close> and then raises
  \<^verbatim>\<open>ValueError\<close>.
\<close>

definition failing_module :: "(int, string list) pymodule" where
  "failing_module =
     \<lparr>mod_name = ''failing'',
      attrs = [(''Echo'', class_member (Command_subclass (Inr (subclass_command ''failing'' ''echo''))))],
      register_attr =
        Some (\<lambda>registry.
          ([Register (subclass_command ''failing'' ''more'')], Some (Raised ''ValueError'')))\<rparr>"

text \<open>
  The module \<^verbatim>\<open>swapping\<close>: two subclasses of \<^verbatim>\<open>Command\<close>, named \<^verbatim>\<open>echo\<close> and \<^verbatim>\<open>old\<close>, and a
  function \<^verbatim>\<open>register(registry)\<close> that unregisters \<^verbatim>\<open>old\<close> and registers, under the name
  \<^verbatim>\<open>new\<close>, an instance of a class that the module \<^verbatim>\<open>override\<close> defines.
\<close>

definition swapping_module :: "(int, string list) pymodule" where
  "swapping_module =
     \<lparr>mod_name = ''swapping'',
      attrs =
        [(''Echo'', class_member (Command_subclass (Inr (subclass_command ''swapping'' ''echo'')))),
         (''Old'', class_member (Command_subclass (Inr (subclass_command ''swapping'' ''old''))))],
      register_attr =
        Some (\<lambda>registry. ([Unregister ''old'', Register (subclass_command ''override'' ''new'')], None))\<rparr>"

text \<open>The module \<^verbatim>\<open>override\<close>: a subclass of \<^verbatim>\<open>Command\<close> whose instances are named
  \<^verbatim>\<open>greet\<close>; no function \<^verbatim>\<open>register\<close>.\<close>

definition override_module :: "(int, string list) pymodule" where
  "override_module =
     \<lparr>mod_name = ''override'',
      attrs = [(''Greet'', class_member (Command_subclass (Inr (subclass_command ''override'' ''greet''))))],
      register_attr = None\<rparr>"

text \<open>The registry's own module: it has no attribute \<^verbatim>\<open>register\<close>.\<close>

definition registry_module :: "(int, string list) pymodule" where
  "registry_module =
     \<lparr>mod_name = registry_module_name,
      attrs =
        [(''Command'', class_member Command_class),
         (''CommandRegistry'', class_member Other_class),
         (''command'', plain_function),
         (''get_function_signature'', plain_function)],
      register_attr = None\<rparr>"

text \<open>A loader that knows these modules; reloading finds the sources unchanged.\<close>

definition example_loader :: "(int, string list) loader" where
  "example_loader =
     \<lparr>import_module =
        (\<lambda>n. if n = ''plugin'' then Inr plugin_module
             else if n = ''tools'' then Inr tools_module
             else if n = ''failing'' then Inr failing_module
             else if n = ''swapping'' then Inr swapping_module
             else if n = ''override'' then Inr override_module
             else if n = registry_module_name then Inr registry_module
             else Inl (Raised ''ModuleNotFoundError'')),
      reload = Inr\<rparr>"

text \<open>Registries made by registering the listed commands, in order, in a new registry.\<close>

definition registry_with :: "(int, string list) Command list \<Rightarrow> (int, string list) CommandRegistry" where
  "registry_with cs = fold (\<lambda>c r. register r c) cs CommandRegistry_init"

definition example_registry :: "(int, string list) CommandRegistry" where
  "example_registry = registry_with [plain_command ''a'' ''First.'']"

section \<open>Auxiliary facts\<close>

subsection \<open>The entries present in a dictionary\<close>

lemma items_mk [simp]: "items \<lparr>dk_entries = es, dk_usable = u\<rparr> = List.map_filter (\<lambda>e. e) es"
  by (simp add: items_def)

lemma present_Nil [simp]: "List.map_filter (\<lambda>e. e) [] = []"
  by (simp add: map_filter_simps)

lemma present_None [simp]: "List.map_filter (\<lambda>e. e) (None # es) = List.map_filter (\<lambda>e. e) es"
  by (simp add: map_filter_simps)

lemma present_Some [simp]:
  "List.map_filter (\<lambda>e. e) (Some x # es) = x # List.map_filter (\<lambda>e. e) es"
  by (simp add: map_filter_simps)

lemma present_append [simp]:
  "List.map_filter (\<lambda>e. e) (es @ fs) = List.map_filter (\<lambda>e. e) es @ List.map_filter (\<lambda>e. e) fs"
  by (simp add: map_filter_def)

lemma present_map_Some [simp]: "List.map_filter (\<lambda>e. e) (map Some xs) = xs"
  by (induction xs) simp_all

lemma present_replace_value:
  "k \<in> fst ` set (List.map_filter (\<lambda>e. e) es) \<Longrightarrow>
     List.map_filter (\<lambda>e. e) (replace_value es k v) = AList.update k v (List.map_filter (\<lambda>e. e) es)"
  by (induction es k v rule: replace_value.induct) auto

lemma update_new: "k \<notin> fst ` set al \<Longrightarrow> AList.update k v al = al @ [(k, v)]"
  by (induction al) auto


lemma items_resize [simp]: "items (dict_resize d) = items d"
  by (simp add: dict_resize_def Let_def)

lemma present_resize:
  "List.map_filter (\<lambda>e. e) (dk_entries (dict_resize d)) = List.map_filter (\<lambda>e. e) (dk_entries d)"
  using items_resize [of d] by (simp add: items_def)

lemma items_setitem: "items (dict_setitem d k v) = AList.update k v (items d)"
proof (cases "dict_contains d k")
  case True
  then show ?thesis
    by (simp add: dict_setitem_def dict_contains_def items_def present_replace_value)
next
  case False
  then have new: "k \<notin> fst ` set (items d)" by (simp add: dict_contains_def)
  have "items (dict_setitem d k v) = items d @ [(k, v)]"
  proof (cases "dk_usable d = 0")
    case True
    with False show ?thesis
      by (simp add: dict_setitem_def Let_def) (simp add: items_def present_resize)
  next
    case nonzero: False
    with False show ?thesis by (simp add: dict_setitem_def Let_def) (simp add: items_def)
  qed
  with new show ?thesis by (simp add: update_new)
qed

lemma items_delitem: "items (dict_delitem d k) = AList.delete k (items d)"
proof -
  have "List.map_filter (\<lambda>e. e)
      (map (\<lambda>e. case e of None \<Rightarrow> None | Some (k', v) \<Rightarrow> if k' = k then None else e) es) =
      AList.delete k (List.map_filter (\<lambda>e. e) es)" for es :: "('a \<times> 'b) option list"
  proof (induction es)
    case Nil
    then show ?case by simp
  next
    case (Cons e es)
    then show ?case by (cases e) (auto simp: AList.delete_eq)
  qed
  then show ?thesis by (simp add: dict_delitem_def items_def)
qed

lemma items_register:
  "items (commands (register r c)) = AList.update (name c) c (items (commands r))"
  by (simp add: register_def items_setitem)


subsection \<open>Registration and keyword binding\<close>

lemma map_of_register:
  "map_of (items (commands (register r c))) = (map_of (items (commands r)))(name c \<mapsto> c)"
  by (simp add: items_register update_conv')

lemma filter_key_update:
  "distinct (map fst al) \<Longrightarrow> filter (\<lambda>p. fst p = k) (AList.update k v al) = [(k, v)]"
proof (induction al)
  case Nil
  then show ?case by simp
next
  case (Cons p al)
  show ?case
  proof (cases "fst p = k")
    case True
    with Cons.prems have "k \<notin> fst ` set al" by auto
    then have "filter (\<lambda>p. fst p = k) al = []"
      by (auto simp: filter_empty_conv)
    with True show ?thesis by simp
  next
    case False
    with Cons show ?thesis by simp
  qed
qed

lemma set_update: "set (AList.update k v al) \<subseteq> insert (k, v) (set al)"
  by (induction al) (auto split: if_splits)

lemma replace_value_twice:
  "replace_value (replace_value es k v) k v' = replace_value es k v'"
  by (induction es k v rule: replace_value.induct) auto

lemma replace_value_appended:
  "k \<notin> fst ` set (List.map_filter (\<lambda>e. e) es) \<Longrightarrow>
     replace_value (es @ [Some (k, v)]) k v' = es @ [Some (k, v')]"
proof (induction es)
  case Nil
  then show ?case by simp
next
  case (Cons e es)
  then show ?case by (cases e) auto
qed

lemma dict_contains_setitem: "dict_contains (dict_setitem d k v) k"
  by (simp add: dict_contains_def items_setitem update_keys)

lemma dict_contains_replaced:
  "dict_contains d k \<Longrightarrow> dict_contains (d\<lparr>dk_entries := replace_value (dk_entries d) k v\<rparr>) k"
  using dict_contains_setitem [of d k v] by (simp add: dict_setitem_def)

lemma dict_setitem_twice: "dict_setitem (dict_setitem d k v) k v' = dict_setitem d k v'"
proof (cases "dict_contains d k")
  case True
  then show ?thesis
    by (simp add: dict_setitem_def dict_contains_replaced replace_value_twice)
next
  case False
  define d' where "d' = (if dk_usable d = 0 then dict_resize d else d)"
  have first: "dict_setitem d k v =
      \<lparr>dk_entries = dk_entries d' @ [Some (k, v)], dk_usable = dk_usable d' - 1\<rparr>"
    using False by (simp add: dict_setitem_def d'_def Let_def)
  have second: "dict_setitem d k v' =
      \<lparr>dk_entries = dk_entries d' @ [Some (k, v')], dk_usable = dk_usable d' - 1\<rparr>"
    using False by (simp add: dict_setitem_def d'_def Let_def)
  have "items d' = items d" by (simp add: d'_def)
  with False have new: "k \<notin> fst ` set (List.map_filter (\<lambda>e. e) (dk_entries d'))"
    by (simp add: dict_contains_def items_def)
  have "dict_contains (dict_setitem d k v) k" by (rule dict_contains_setitem)
  then have "dict_setitem (dict_setitem d k v) k v' =
      (dict_setitem d k v)\<lparr>dk_entries := replace_value (dk_entries (dict_setitem d k v)) k v'\<rparr>"
    by (simp add: dict_setitem_def)
  also have "\<dots> = \<lparr>dk_entries = dk_entries d' @ [Some (k, v')], dk_usable = dk_usable d' - 1\<rparr>"
    by (simp add: first replace_value_appended [OF new])
  finally show ?thesis by (simp add: second)
qed

lemma delete_filter: "AList.delete n al = filter (\<lambda>p. fst p \<noteq> n) al"
  by (induction al) auto

lemma map_of_filter_key: "map_of (filter (\<lambda>p. fst p \<noteq> n) al) = (map_of al)(n := None)"
  using delete_conv' [of n al] by (simp add: delete_filter)

lemma bind_keywords_None:
  "bind_keywords f filled kwargs = None \<longleftrightarrow> (\<forall>k \<in> set filled. k \<notin> set (map fst kwargs))"
proof -
  have "bind_keywords f filled kwargs = None \<longleftrightarrow>
      find (\<lambda>k. k \<in> set filled) (map fst kwargs) = None"
    by (simp add: bind_keywords_def split: option.splits)
  also have "\<dots> \<longleftrightarrow> (\<forall>k \<in> set filled. k \<notin> set (map fst kwargs))"
    unfolding find_None_iff by blast
  finally show ?thesis .
qed

subsection \<open>The listing, the invariant of the mapping, importing\<close>

lemma map_enumerate_nth:
  "map f (enumerate 0 xs) = map (\<lambda>i. f (i, xs ! i)) [0..<length xs]"
  by (rule nth_equalityI) (simp_all add: nth_enumerate_eq)

lemma str_nat_digits:
  "str_nat (Suc 0) = ''1''" "str_nat (Suc (Suc 0)) = ''2''" "str_nat (Suc (Suc (Suc 0))) = ''3''"
  by (simp_all add: str_nat.simps digit_def)

lemma prompt_line_eq:
  "prompt_line (i, c) = str_nat (i + 1) @ ''. '' @ name c @ ''('' @ signature c @ '')''"
  by (simp add: prompt_line_def Command_str_def)

lemma inv_register: "keys_are_names r \<Longrightarrow> keys_are_names (register r c)"
  using set_update [of "name c" c "items (commands r)"]
  by (auto simp: keys_are_names_def items_register)

lemma inv_unregister: "keys_are_names r \<Longrightarrow> unregister r n = Inr r' \<Longrightarrow> keys_are_names r'"
  by (auto simp: keys_are_names_def unregister_def items_delitem delete_filter split: if_splits)

lemma inv_import_attrs: "keys_are_names r \<Longrightarrow> keys_are_names (snd (import_attrs r as))"
  by (induction r as rule: import_attrs.induct)
     (auto simp: inv_register split: option.splits class_kind.splits sum.splits)

lemma inv_import_commands:
  assumes "keys_are_names r"
  shows "keys_are_names (registry_of (import_commands L r m))"
proof (cases "import_module L m")
  case (Inl e)
  with assms show ?thesis by (simp add: import_commands_def)
next
  case (Inr module)
  from assms have "keys_are_names (snd (import_attrs r (attrs module)))"
    by (rule inv_import_attrs)
  with Inr show ?thesis
    by (auto simp: import_commands_def split: prod.splits option.splits)
qed

lemma registry_of_after [simp]: "registry_of (after evs out) = registry_of out"
  by (cases out) simp_all

lemma events_of_after [simp]: "events_of (after evs out) = evs @ events_of out"
  by (cases out) simp_all

lemma inv_import_all:
  "keys_are_names r \<Longrightarrow> keys_are_names (registry_of (import_all L r tools))"
proof (induction tools arbitrary: r)
  case Nil
  then show ?case by simp
next
  case (Cons m tools)
  from Cons.prems have "keys_are_names (registry_of (import_commands L r m))"
    by (rule inv_import_commands)
  then show ?case
    by (cases "import_commands L r m") (simp_all add: Cons.IH)
qed

lemma inv_init: "keys_are_names CommandRegistry_init"
  by (simp add: keys_are_names_def CommandRegistry_init_def dict_new_def)

lemma inv_for_tools: "keys_are_names (registry_of (for_tools L tools))"
  by (simp add: for_tools_def inv_import_all inv_init)

lemma inv_run_calls: "keys_are_names r \<Longrightarrow> keys_are_names (snd (run_calls r calls))"
proof (induction r calls rule: run_calls.induct)
  case (1 registry)
  then show ?case by simp
next
  case (2 registry cmd rest)
  then show ?case by (simp add: inv_register)
next
  case (3 registry n rest)
  show ?case
  proof (cases "unregister registry n")
    case (Inl e)
    with "3.prems" show ?thesis by simp
  next
    case (Inr registry')
    with "3.prems" have "keys_are_names registry'" by (simp add: inv_unregister)
    with "3.IH" Inr show ?thesis by simp
  qed
qed

lemma inv_reload_step:
  assumes "keys_are_names r"
  shows "keys_are_names (registry_of (reload_step L r k))"
proof -
  have "keys_are_names (snd (run_calls r calls))" for calls
    using assms by (rule inv_run_calls)
  then have "keys_are_names r'" if "run_calls r calls = (e, r')" for calls e r'
    using that by (metis snd_conv)
  with assms show ?thesis
    by (auto simp: reload_step_def Let_def split: sum.splits option.splits prod.splits)
qed

lemma reload_iter_changed:
  "di_used \<noteq> dict_len (commands self) \<Longrightarrow>
     reload_iter L di_used di_pos len self = Raises changed_size self []"
  by (subst reload_iter.simps) simp

lemma reload_iter_end:
  "di_used = dict_len (commands self) \<Longrightarrow> next_entry (commands self) di_pos = None \<Longrightarrow>
     reload_iter L di_used di_pos len self = Returns self []"
  by (subst reload_iter.simps) simp

lemma reload_iter_keys:
  "di_used = dict_len (commands self) \<Longrightarrow> next_entry (commands self) di_pos = Some (i, k, c) \<Longrightarrow>
     reload_iter L di_used di_pos 0 self = Raises changed_keys self []"
  by (subst reload_iter.simps) simp

lemma reload_iter_raises:
  "di_used = dict_len (commands self) \<Longrightarrow> next_entry (commands self) di_pos = Some (i, k, c) \<Longrightarrow>
   reload_step L self k = Raises e r evs \<Longrightarrow>
     reload_iter L di_used di_pos (Suc len) self = Raises e r evs"
  by (subst reload_iter.simps) simp

lemma reload_iter_returns:
  "di_used = dict_len (commands self) \<Longrightarrow> next_entry (commands self) di_pos = Some (i, k, c) \<Longrightarrow>
   reload_step L self k = Returns r evs \<Longrightarrow>
     reload_iter L di_used di_pos (Suc len) self = after evs (reload_iter L di_used (Suc i) len r)"
  by (subst reload_iter.simps) simp

lemma inv_reload_iter:
  "keys_are_names r \<Longrightarrow> keys_are_names (registry_of (reload_iter L used pos len r))"
proof (induction len arbitrary: pos r)
  case 0
  show ?case
  proof (cases "used = dict_len (commands r)")
    case False
    with 0 show ?thesis by (simp add: reload_iter_changed)
  next
    case True
    with 0 show ?thesis
      by (cases "next_entry (commands r) pos") (auto simp: reload_iter_end reload_iter_keys)
  qed
next
  case (Suc len)
  show ?case
  proof (cases "used = dict_len (commands r)")
    case False
    with Suc.prems show ?thesis by (simp add: reload_iter_changed)
  next
    case True
    show ?thesis
    proof (cases "next_entry (commands r) pos")
      case None
      with True Suc.prems show ?thesis by (simp add: reload_iter_end)
    next
      case (Some x)
      obtain i k c where x: "x = (i, k, c)" by (cases x)
      from Suc.prems have step: "keys_are_names (registry_of (reload_step L r k))"
        by (rule inv_reload_step)
      show ?thesis
      proof (cases "reload_step L r k")
        case (Returns r' evs)
        with step have "keys_are_names r'" by simp
        then have "keys_are_names (registry_of (reload_iter L used (Suc i) len r'))"
          by (rule Suc.IH)
        with True Some x Returns show ?thesis by (simp add: reload_iter_returns)
      next
        case (Raises e r' evs)
        with step True Some x show ?thesis by (simp add: reload_iter_raises)
      qed
    qed
  qed
qed

lemma inv_reload_commands:
  "keys_are_names r \<Longrightarrow> keys_are_names (registry_of (reload_commands L r))"
  by (simp add: reload_commands_def inv_reload_iter)

lemma import_attrs_cases:
  obtains (registers) c where "\<And>r n rest. import_attrs r ((n, attr) # rest) = import_attrs (register r c) rest"
  | (raises) e where "\<And>r n rest. import_attrs r ((n, attr) # rest) = (Some e, r)"
  | (skips) "\<And>r n rest. import_attrs r ((n, attr) # rest) = import_attrs r rest"
proof (cases "ix_command attr = Some True")
  case True
  then show ?thesis
    by (cases "command_attr attr") (auto intro: registers raises)
next
  case flag: False
  show ?thesis
  proof (cases "as_class attr")
    case None
    with flag show ?thesis by (auto intro: skips)
  next
    case (Some k)
    show ?thesis
    proof (cases k)
      case Command_class
      with flag Some show ?thesis by (auto intro: skips)
    next
      case (Command_subclass inst)
      with flag Some show ?thesis
        by (cases inst) (auto intro: registers raises)
    next
      case Other_class
      with flag Some show ?thesis by (auto intro: skips)
    qed
  qed
qed

lemma import_attrs_map_add:
  "map_of (items (commands r1)) = M ++ map_of (items (commands r2)) \<Longrightarrow>
     map_of (items (commands (snd (import_attrs r1 as)))) = M ++ map_of (items (commands (snd (import_attrs r2 as))))"
proof (induction as arbitrary: r1 r2)
  case Nil
  then show ?case by simp
next
  case (Cons a as)
  obtain n attr where a: "a = (n, attr)" by (cases a)
  show ?case
  proof (cases attr rule: import_attrs_cases)
    case (registers c)
    from Cons.prems
    have "map_of (items (commands (register r1 c))) = M ++ map_of (items (commands (register r2 c)))"
      by (simp add: map_of_register)
    from Cons.IH [OF this] show ?thesis by (simp add: a registers del: import_attrs.simps)
  next
    case (raises e)
    with Cons.prems show ?thesis by (simp add: a del: import_attrs.simps)
  next
    case skips
    from Cons.IH [OF Cons.prems] show ?thesis by (simp add: a skips del: import_attrs.simps)
  qed
qed

lemma import_commands_events: "events_of (import_commands L r m) = [Import_module m]"
  by (auto simp: import_commands_def split: sum.splits prod.splits option.splits)

lemma import_commands_map_add:
  assumes "import_commands L r m = Returns r' evs"
  shows "map_of (items (commands r')) = map_of (items (commands r)) ++ unit_commands L m"
proof (cases "import_module L m")
  case (Inl e)
  with assms show ?thesis by (simp add: import_commands_def)
next
  case (Inr module)
  have "map_of (items (commands (snd (import_attrs r (attrs module))))) =
      map_of (items (commands r)) ++ map_of (items (commands (snd (import_attrs CommandRegistry_init (attrs module)))))"
    by (rule import_attrs_map_add) (simp add: CommandRegistry_init_def dict_new_def)
  moreover from assms Inr have "r' = snd (import_attrs r (attrs module))"
    by (auto simp: import_commands_def split: prod.splits option.splits)
  moreover have "unit_commands L m =
      map_of (items (commands (snd (import_attrs CommandRegistry_init (attrs module)))))"
    using Inr by (auto simp: unit_commands_def import_commands_def split: prod.splits option.splits)
  ultimately show ?thesis by simp
qed

lemma import_all_returns:
  "import_all L r0 tools = Returns r evs \<Longrightarrow>
     evs = map Import_module tools
     \<and> map_of (items (commands r)) = foldl (++) (map_of (items (commands r0))) (map (unit_commands L) tools)"
proof (induction tools arbitrary: r0 evs)
  case Nil
  then show ?case by simp
next
  case (Cons m tools)
  show ?case
  proof (cases "import_commands L r0 m")
    case (Raises e r1 evs1)
    with Cons.prems show ?thesis by simp
  next
    case (Returns r1 evs1)
    with import_commands_events [of L r0 m] have evs1: "evs1 = [Import_module m]" by simp
    from Returns have r1: "map_of (items (commands r1)) = map_of (items (commands r0)) ++ unit_commands L m"
      by (rule import_commands_map_add)
    from Cons.prems Returns obtain evs2
      where rest: "import_all L r1 tools = Returns r evs2" and evs: "evs = evs1 @ evs2"
      by (cases "import_all L r1 tools") auto
    from Cons.IH [OF rest] evs evs1 r1 show ?thesis by simp
  qed
qed

lemma import_all_raises:
  "import_all L r0 tools = Raises e r evs \<Longrightarrow>
     \<exists>pre m post r1. tools = pre @ m # post
       \<and> import_all L r0 pre = Returns r1 (map Import_module pre)
       \<and> import_commands L r1 m = Raises e r [Import_module m]
       \<and> evs = map Import_module (pre @ [m])"
proof (induction tools arbitrary: r0 evs)
  case Nil
  then show ?case by simp
next
  case (Cons t tools)
  show ?case
  proof (cases "import_commands L r0 t")
    case (Raises e1 r1 evs1)
    with import_commands_events [of L r0 t] have "evs1 = [Import_module t]" by simp
    with Raises Cons.prems
    have "t # tools = [] @ t # tools \<and> import_all L r0 [] = Returns r0 (map Import_module [])
        \<and> import_commands L r0 t = Raises e r [Import_module t]
        \<and> evs = map Import_module ([] @ [t])"
      by simp
    then show ?thesis by blast
  next
    case (Returns r1 evs1)
    with import_commands_events [of L r0 t] have evs1: "evs1 = [Import_module t]" by simp
    from Cons.prems Returns obtain evs2
      where rest: "import_all L r1 tools = Raises e r evs2" and evs: "evs = evs1 @ evs2"
      by (cases "import_all L r1 tools") auto
    from Cons.IH [OF rest] obtain pre m post r2 where
      split: "tools = pre @ m # post"
      and pre: "import_all L r1 pre = Returns r2 (map Import_module pre)"
      and fail: "import_commands L r2 m = Raises e r [Import_module m]"
      and evs2: "evs2 = map Import_module (pre @ [m])"
      by blast
    from pre Returns evs1 have "import_all L r0 (t # pre) = Returns r2 (map Import_module (t # pre))"
      by simp
    with split fail evs evs1 evs2
    have "t # tools = (t # pre) @ m # post
        \<and> import_all L r0 (t # pre) = Returns r2 (map Import_module (t # pre))
        \<and> import_commands L r2 m = Raises e r [Import_module m]
        \<and> evs = map Import_module ((t # pre) @ [m])"
      by simp
    then show ?thesis by blast
  qed
qed

subsection \<open>Reloading\<close>







subsection \<open>Signatures and the examples, evaluated\<close>

lemma render_parameter_spec: "render_parameter = spec_render_parameter ''_empty''"
  by (rule ext)
     (simp add: render_parameter_def spec_render_parameter_def type_display_def Parameter_empty_def)

lemma get_function_signature_spec:
  "inspect_signature m = Inr sig \<Longrightarrow>
     get_function_signature m = Inr (spec_signature ''_empty'' (parameters sig))"
  by (simp add: get_function_signature_def spec_signature_def render_parameter_spec)

lemma add_rendering: "join '', '' (map render_parameter (parameters add_signature)) = ''x: int, y: _empty''"
  by (simp add: add_signature_def render_parameter_def int_class_def Parameter_empty_def)

lemma plugin_attrs:
  "attrs plugin_module =
     [(''greet'',
       \<lparr>ix_command = Some True, command_attr = Some (plain_command ''greet'' ''Greets.''),
        as_class = None, on_call = Some add_body\<rparr>),
      (''register'', plain_function)]"
  by (simp add: plugin_module_def command_def Command_init_def get_function_signature_def
      add_method_def add_rendering plain_command_def)

lemma import_module_example:
  "import_module example_loader ''plugin'' = Inr plugin_module"
  "import_module example_loader ''tools'' = Inr tools_module"
  "import_module example_loader ''failing'' = Inr failing_module"
  "import_module example_loader ''swapping'' = Inr swapping_module"
  "import_module example_loader ''override'' = Inr override_module"
  "import_module example_loader ''ix.commands.registry'' = Inr registry_module"
  "import_module example_loader ''nowhere'' = Inl (Raised ''ModuleNotFoundError'')"
  by (simp_all add: example_loader_def registry_module_name_def)

lemma reload_example: "reload example_loader m = Inr m"
  by (simp add: example_loader_def)

lemma import_plugin:
  "import_commands example_loader r ''plugin'' =
     Returns (register r (plain_command ''greet'' ''Greets.'')) [Import_module ''plugin'']"
  by (simp add: import_commands_def import_module_example plugin_attrs plain_function_def)

lemma import_tools:
  "import_commands example_loader r ''tools'' =
     Returns (register r (subclass_command ''tools'' ''echo'')) [Import_module ''tools'']"
  by (simp add: import_commands_def import_module_example tools_module_def class_member_def)

lemma import_override:
  "import_commands example_loader r ''override'' =
     Returns (register r (subclass_command ''override'' ''greet'')) [Import_module ''override'']"
  by (simp add: import_commands_def import_module_example override_module_def class_member_def)

lemma import_nowhere:
  "import_commands example_loader r ''nowhere'' =
     Raises (Raised ''ModuleNotFoundError'') r [Import_module ''nowhere'']"
  by (simp add: import_commands_def import_module_example)

lemma log2_keysize_min: "log2_keysize 3 0 = 3"
  by (simp add: log2_keysize.simps)

lemma register_init:
  "register CommandRegistry_init c =
     \<lparr>commands = \<lparr>dk_entries = [Some (name c, c)], dk_usable = 4\<rparr>\<rparr>"
  by (simp add: register_def CommandRegistry_init_def dict_new_def dict_setitem_def
      dict_contains_def dict_resize_def log2_keysize_min)

lemma name_examples [simp]:
  "name (plain_command n d) = n" "name (subclass_command m n) = n" "name help_command = ''help''"
  "dunder_module (plain_command n d) = ''ix.commands.registry''"
  "dunder_module (subclass_command m n) = m"
  by (simp_all add: plain_command_def subclass_command_def help_command_def registry_module_name_def)

lemma registry_with_one:
  "registry_with [c] = \<lparr>commands = \<lparr>dk_entries = [Some (name c, c)], dk_usable = 4\<rparr>\<rparr>"
  by (simp add: registry_with_def register_init)


lemma reload_step_registry_module:
  "map_of (items (commands r)) k = Some (plain_command n d) \<Longrightarrow>
     reload_step example_loader r k =
       Returns r [Import_module ''ix.commands.registry'', Reload_module ''ix.commands.registry'']"
  by (simp add: reload_step_def dict_getitem_def import_module_example reload_example
      registry_module_def registry_module_name_def)

subsection \<open>Steps of the reload loop\<close>

lemma run_iter_one:
  assumes "dict_len (commands r) = n" and "next_entry (commands r) pos = Some (i, k, c)"
    and "reload_step L r k = Returns r' evs"
  shows "reload_iter L n pos (Suc len) r = after evs (reload_iter L n (Suc i) len r')"
  using assms by (simp add: reload_iter_returns [where c = c])


section \<open>The properties\<close>

text \<open>
  C1. For every registry and every currently registered command, \<^verbatim>\<open>reload_commands\<close>
  re-resolves the unit from which the command was discovered, asks the loader to reload
  it and, if the reloaded unit has a function \<^verbatim>\<open>register(registry)\<close>, calls it with this
  registry. The code resolves \<^verbatim>\<open>cmd.__module__\<close>, the module that defines the class of
  the command, and for a command made by the decorator that is the registry's own module.
  The theorem evaluates the code on a registry filled from the module \<^verbatim>\<open>plugin\<close>, which
  has such a function: the loader is asked for \<^verbatim>\<open>ix.commands.registry\<close> only, the
  function of \<^verbatim>\<open>plugin\<close> is never called, and the command keeps its old description.
\<close>

theorem reload_commands_skips_decorated_plugin:
  "for_tools example_loader (Some [''plugin'']) =
     Returns (registry_with [plain_command ''greet'' ''Greets.'']) [Import_module ''plugin'']
   \<and> items (commands (registry_with [plain_command ''greet'' ''Greets.''])) =
       [(''greet'', plain_command ''greet'' ''Greets.'')]
   \<and> entry_point_calls plugin_module (registry_with [plain_command ''greet'' ''Greets.'']) =
       Some ([Register (plain_command ''greet'' ''Greets twice.'')], None)
   \<and> reload_commands example_loader (registry_with [plain_command ''greet'' ''Greets.'']) =
       Returns (registry_with [plain_command ''greet'' ''Greets.''])
         [Import_module ''ix.commands.registry'', Reload_module ''ix.commands.registry'']"
proof -
  let ?g = "plain_command ''greet'' ''Greets.''"
  let ?r = "registry_with [?g]"
  let ?evs = "[Import_module ''ix.commands.registry'', Reload_module ''ix.commands.registry'']"
  have r: "?r = \<lparr>commands = \<lparr>dk_entries = [Some (''greet'', ?g)], dk_usable = 4\<rparr>\<rparr>"
    by (simp add: registry_with_one)
  have its: "items (commands ?r) = [(''greet'', ?g)]"
    by (simp add: r)
  then have len: "dict_len (commands ?r) = Suc 0"
    by (simp add: dict_len_def)
  have n0: "next_entry (commands ?r) 0 = Some (0, ''greet'', ?g)"
    by (simp add: r next_entry_def)
  have n1: "next_entry (commands ?r) (Suc 0) = None"
    by (simp add: r next_entry_def)
  have step: "reload_step example_loader ?r ''greet'' = Returns ?r ?evs"
    by (rule reload_step_registry_module [where n = "''greet''" and d = "''Greets.''"])
       (simp add: its)
  have "reload_iter example_loader (Suc 0) 0 (Suc 0) ?r =
      after ?evs (reload_iter example_loader (Suc 0) (Suc 0) 0 ?r)"
    using len n0 step by (rule run_iter_one)
  moreover have "reload_iter example_loader (Suc 0) (Suc 0) 0 ?r = Returns ?r []"
    using len n1 by (simp add: reload_iter_end)
  ultimately have run: "reload_commands example_loader ?r = Returns ?r ?evs"
    by (simp add: reload_commands_def len)
  have imp: "for_tools example_loader (Some [''plugin'']) = Returns ?r [Import_module ''plugin'']"
    by (simp add: for_tools_def import_plugin registry_with_def)
  have ep: "entry_point_calls plugin_module ?r =
      Some ([Register (plain_command ''greet'' ''Greets twice.'')], None)"
    by (simp add: entry_point_calls_def plugin_module_def)
  from imp its ep run show ?thesis by (intro conjI)
qed

text \<open>
  C2, as amended. For every method whose declared parameters \<^verbatim>\<open>inspect.signature\<close> can
  retrieve, constructing a \<^verbatim>\<open>Command\<close> without a signature succeeds and derives the
  signature from the parameters in declaration order, each rendered as its name, a colon
  and its type, joined by a comma and a space; an untyped parameter is rendered with the
  marker \<^verbatim>\<open>_empty\<close> (not \<^verbatim>\<open>Any\<close>), and the return annotation has no influence on the
  result.
\<close>

theorem derived_signature:
  "inspect_signature m = Inr sig \<Longrightarrow>
     Command_init n d m None =
       Inr \<lparr>name = n, description = d, method = m,
            signature = spec_signature ''_empty'' (parameters sig),
            dunder_module = registry_module_name\<rparr>
     \<and> get_function_signature (m\<lparr>inspect_signature := Inr (sig\<lparr>return_annotation := ra\<rparr>)\<rparr>) =
         get_function_signature m"
  by (simp add: Command_init_def get_function_signature_spec)

theorem derived_signature_witness:
  "inspect_signature add_method = Inr add_signature
   \<and> Command_init ''add'' ''Adds.'' add_method None =
       Inr \<lparr>name = ''add'', description = ''Adds.'', method = add_method,
            signature = ''x: int, y: _empty'', dunder_module = registry_module_name\<rparr>"
proof -
  have h: "inspect_signature add_method = Inr add_signature"
    by (simp add: add_method_def)
  have "spec_signature ''_empty'' (parameters add_signature) = ''x: int, y: _empty''"
    by (simp add: spec_signature_def spec_render_parameter_def add_signature_def
        type_display_def int_class_def Parameter_empty_def)
  with h derived_signature [OF h, of "''add''" "''Adds.''"] show ?thesis by simp
qed

text \<open>
  The claim as it stands, with \<^verbatim>\<open>Any\<close> for an untyped parameter, fails for a method with
  the parameters \<^verbatim>\<open>x: int\<close> and \<^verbatim>\<open>y\<close>.
\<close>

theorem derived_signature_counterexample:
  "Command_init ''add'' ''Adds.'' add_method None =
     Inr \<lparr>name = ''add'', description = ''Adds.'', method = add_method,
          signature = ''x: int, y: _empty'', dunder_module = registry_module_name\<rparr>
   \<and> spec_signature ''Any'' (parameters add_signature) = ''x: int, y: Any''
   \<and> Command_init ''add'' ''Adds.'' add_method None \<noteq>
     Inr \<lparr>name = ''add'', description = ''Adds.'', method = add_method,
          signature = spec_signature ''Any'' (parameters add_signature),
          dunder_module = registry_module_name\<rparr>"
proof -
  have "spec_signature ''Any'' (parameters add_signature) = ''x: int, y: Any''"
    by (simp add: spec_signature_def spec_render_parameter_def add_signature_def
        type_display_def int_class_def Parameter_empty_def)
  moreover have "Command_init ''add'' ''Adds.'' add_method None =
     Inr \<lparr>name = ''add'', description = ''Adds.'', method = add_method,
          signature = ''x: int, y: _empty'', dunder_module = registry_module_name\<rparr>"
    by (simp add: Command_init_def get_function_signature_def add_method_def add_rendering)
  ultimately show ?thesis by simp
qed

text \<open>
  C3. For every registry and any two commands with the same name \<open>N\<close>, registering the
  first and then the second leaves exactly one entry for \<open>N\<close>, \<^verbatim>\<open>get(N)\<close> returns the
  second, and the registry is the one that registering the second alone would have given.
  \<^verbatim>\<open>register\<close> has no failing branch.
\<close>

theorem register_overwrite:
  assumes "name c1 = N" and "name c2 = N" and "distinct (map fst (items (commands r)))"
  shows "get (register (register r c1) c2) N = Inr c2
       \<and> filter (\<lambda>p. fst p = N) (items (commands (register (register r c1) c2))) = [(N, c2)]
       \<and> register (register r c1) c2 = register r c2"
proof -
  have "get (register (register r c1) c2) N = Inr c2"
    using assms(2) by (simp add: get_def dict_getitem_def map_of_register)
  moreover have "filter (\<lambda>p. fst p = N) (items (commands (register (register r c1) c2))) = [(N, c2)]"
    using assms by (simp add: items_register filter_key_update)
  moreover have "register (register r c1) c2 = register r c2"
    using assms(1,2) by (simp add: register_def dict_setitem_twice)
  ultimately show ?thesis by simp
qed

theorem register_overwrite_witness:
  "name (plain_command ''b'' ''One.'') = ''b'' \<and> name (plain_command ''b'' ''Two.'') = ''b''
   \<and> distinct (map fst (items (commands example_registry)))
   \<and> get (register (register example_registry (plain_command ''b'' ''One.''))
        (plain_command ''b'' ''Two.'')) ''b'' = Inr (plain_command ''b'' ''Two.'')
   \<and> items (commands (register (register example_registry (plain_command ''b'' ''One.''))
        (plain_command ''b'' ''Two.''))) =
       [(''a'', plain_command ''a'' ''First.''), (''b'', plain_command ''b'' ''Two.'')]"
proof -
  have its: "items (commands example_registry) = [(''a'', plain_command ''a'' ''First.'')]"
    by (simp add: example_registry_def registry_with_one)
  have h: "name (plain_command ''b'' ''One.'') = ''b''" "name (plain_command ''b'' ''Two.'') = ''b''"
    "distinct (map fst (items (commands example_registry)))"
    by (simp_all add: its)
  note t = register_overwrite [OF h]
  from t have g: "get (register (register example_registry (plain_command ''b'' ''One.''))
      (plain_command ''b'' ''Two.'')) ''b'' = Inr (plain_command ''b'' ''Two.'')"
    by (rule conjunct1)
  from t have "register (register example_registry (plain_command ''b'' ''One.''))
      (plain_command ''b'' ''Two.'') = register example_registry (plain_command ''b'' ''Two.'')"
    by blast
  then have c: "items (commands (register (register example_registry (plain_command ''b'' ''One.''))
      (plain_command ''b'' ''Two.''))) =
      [(''a'', plain_command ''a'' ''First.''), (''b'', plain_command ''b'' ''Two.'')]"
    by (simp add: items_register its)
  from h g c show ?thesis by blast
qed

text \<open>
  C4. For every registry and every name: \<^verbatim>\<open>unregister\<close> of an absent name raises the
  \<^verbatim>\<open>KeyError\<close> of the module; \<^verbatim>\<open>unregister\<close> of a present name removes the entries under
  that name and no other, and a later \<^verbatim>\<open>get\<close> of the name raises a \<^verbatim>\<open>KeyError\<close> too.
\<close>

theorem unregister_not_found:
  "(n \<notin> set (map fst (items (commands r))) \<longrightarrow>
      unregister r n = Inl (not_found n) \<and> is_NotFound (not_found n))
   \<and> (n \<in> set (map fst (items (commands r))) \<longrightarrow>
      (\<exists>r'. unregister r n = Inr r'
         \<and> items (commands r') = filter (\<lambda>p. fst p \<noteq> n) (items (commands r))
         \<and> get r' n = Inl (KeyError n) \<and> is_NotFound (KeyError n)
         \<and> (\<forall>k. k \<noteq> n \<longrightarrow> get r' k = get r k)))"
  by (simp add: unregister_def dict_contains_def not_found_def get_def dict_getitem_def
      items_delitem delete_filter map_of_filter_key)

theorem unregister_not_found_witness:
  "''zz'' \<notin> set (map fst (items (commands example_registry)))
   \<and> unregister example_registry ''zz'' = Inl (not_found ''zz'')
   \<and> ''a'' \<in> set (map fst (items (commands example_registry)))
   \<and> items (commands example_registry) = [(''a'', plain_command ''a'' ''First.'')]
   \<and> unregister example_registry ''a'' =
       Inr \<lparr>commands = \<lparr>dk_entries = [None], dk_usable = 4\<rparr>\<rparr>
   \<and> items (commands \<lparr>commands = \<lparr>dk_entries = [None], dk_usable = 4\<rparr>\<rparr>) =
       ([] :: (string \<times> (int, string list) Command) list)
   \<and> get \<lparr>commands = \<lparr>dk_entries = [None], dk_usable = 4\<rparr>\<rparr> ''a'' =
       (Inl (KeyError ''a'') :: error + (int, string list) Command)"
proof -
  let ?q = "\<lparr>commands = \<lparr>dk_entries = [None], dk_usable = 4\<rparr>\<rparr> :: (int, string list) CommandRegistry"
  have r: "example_registry =
      \<lparr>commands = \<lparr>dk_entries = [Some (''a'', plain_command ''a'' ''First.'')], dk_usable = 4\<rparr>\<rparr>"
    by (simp add: example_registry_def registry_with_one)
  have its: "items (commands example_registry) = [(''a'', plain_command ''a'' ''First.'')]"
    by (simp add: r)
  have absent: "''zz'' \<notin> set (map fst (items (commands example_registry)))"
    and present: "''a'' \<in> set (map fst (items (commands example_registry)))"
    by (simp_all add: its)
  from unregister_not_found [of "''zz''" example_registry] absent
  have z: "unregister example_registry ''zz'' = Inl (not_found ''zz'')" by blast
  from unregister_not_found [of "''a''" example_registry] present
  obtain r' where "unregister example_registry ''a'' = Inr r'"
    and "get r' ''a'' = Inl (KeyError ''a'')"
    by blast
  moreover have "unregister example_registry ''a'' = Inr ?q"
    by (simp add: unregister_def dict_contains_def its) (simp add: r dict_delitem_def)
  ultimately have u: "unregister example_registry ''a'' = Inr ?q"
    and g: "get ?q ''a'' = Inl (KeyError ''a'')"
    by simp_all
  have e: "items (commands ?q) = []" by simp
  from absent z present its u e g show ?thesis by (intro conjI)
qed




text \<open>
  C6, as amended. For every command \<open>c\<close> and all keyword arguments none of which is named
  \<^verbatim>\<open>self\<close> or \<^verbatim>\<open>command_name\<close>, registering \<open>c\<close> and then calling it by its name gives
  exactly what the implementation of \<open>c\<close> gives for these arguments, with no positional
  argument: its value or its exception, and the state it leaves. Calling the command
  itself forwards the positional and the keyword arguments likewise when no keyword is
  named \<^verbatim>\<open>self\<close>.
\<close>

theorem call_round_trip:
  "(''self'' \<notin> set (map fst kwargs) \<and> ''command_name'' \<notin> set (map fst kwargs) \<longrightarrow>
      call (register r c) (name c) kwargs w = body (method c) [] kwargs w)
   \<and> (''self'' \<notin> set (map fst kwargs) \<longrightarrow>
      Command_call c args kwargs w = body (method c) args kwargs w)"
proof (intro conjI impI)
  assume free: "''self'' \<notin> set (map fst kwargs) \<and> ''command_name'' \<notin> set (map fst kwargs)"
  then have "bind_keywords ''CommandRegistry.call'' [''self'', ''command_name''] kwargs = None"
    and "bind_keywords ''Command.__call__'' [''self''] kwargs = None"
    by (simp_all add: bind_keywords_None)
  then show "call (register r c) (name c) kwargs w = body (method c) [] kwargs w"
    by (simp add: call_def register_def dict_contains_setitem dict_getitem_def
        items_setitem update_conv' Command_call_def)
next
  assume "''self'' \<notin> set (map fst kwargs)"
  then have "bind_keywords ''Command.__call__'' [''self''] kwargs = None"
    by (simp add: bind_keywords_None)
  then show "Command_call c args kwargs w = body (method c) args kwargs w"
    by (simp add: Command_call_def)
qed

theorem call_round_trip_witness:
  "''self'' \<notin> set (map fst [(''x'', 1 :: int), (''y'', 2)])
   \<and> ''command_name'' \<notin> set (map fst [(''x'', 1 :: int), (''y'', 2)])
   \<and> body (method (plain_command ''b'' ''Second.'')) [] [(''x'', 1), (''y'', 2)] [] = (Inr 3, [''add''])
   \<and> call (register example_registry (plain_command ''b'' ''Second.'')) ''b''
        [(''x'', 1), (''y'', 2)] [] = (Inr 3, [''add''])
   \<and> Command_call (plain_command ''b'' ''Second.'') [1] [(''y'', 2)] [] = (Inr 3, [''add''])"
proof -
  have k: "''self'' \<notin> set (map fst [(''x'', 1 :: int), (''y'', 2)])
      \<and> ''command_name'' \<notin> set (map fst [(''x'', 1 :: int), (''y'', 2)])"
    and k': "''self'' \<notin> set (map fst [(''y'', 2 :: int)])"
    by simp_all
  have b: "body (method (plain_command ''b'' ''Second.'')) [] [(''x'', 1), (''y'', 2)] [] = (Inr 3, [''add''])"
    and b': "body (method (plain_command ''b'' ''Second.'')) [1] [(''y'', 2)] [] = (Inr 3, [''add''])"
    by (simp_all add: plain_command_def add_method_def add_body_def)
  from call_round_trip [of "[(''x'', 1), (''y'', 2)]" example_registry "plain_command ''b'' ''Second.''" "[]"] k b
  have c: "call (register example_registry (plain_command ''b'' ''Second.'')) ''b''
      [(''x'', 1), (''y'', 2)] [] = (Inr 3, [''add''])"
    by simp
  from call_round_trip [of "[(''y'', 2)]" example_registry "plain_command ''b'' ''Second.''" "[]" "[1]"] k' b'
  have d: "Command_call (plain_command ''b'' ''Second.'') [1] [(''y'', 2)] [] = (Inr 3, [''add''])"
    by simp
  from k b c d show ?thesis by blast
qed

text \<open>
  The claim as it stands fails for an implementation \<^verbatim>\<open>def help(command_name)\<close>: the
  keyword \<^verbatim>\<open>command_name=7\<close> is valid for it, and \<^verbatim>\<open>call("help", command_name=7)\<close> raises
  \<^verbatim>\<open>TypeError\<close> without running it.
\<close>

theorem call_round_trip_counterexample:
  "body (method help_command) [] [(''command_name'', 7)] [] = (Inr 7, [''help''])
   \<and> call (register example_registry help_command) (name help_command) [(''command_name'', 7)] [] =
       (Inl (multiple_values ''CommandRegistry.call'' ''command_name''), [])"
  by (simp add: help_command_def help_method_def help_body_def call_def bind_keywords_def)

text \<open>
  C7. For every registry, \<^verbatim>\<open>command_prompt\<close> is the lines of the registered commands
  joined by newlines, one line for each command, in the order of their names, line
  \<open>i\<close> (counted from 1) being \<open>i\<close>, a full stop, a space, the name, and the signature in
  parentheses. Registered as \<^verbatim>\<open>b\<close>, \<^verbatim>\<open>a\<close>, \<^verbatim>\<open>c\<close>, three commands are listed as
  \<^verbatim>\<open>1. a(...)\<close>, \<^verbatim>\<open>2. b(...)\<close>, \<^verbatim>\<open>3. c(...)\<close>. The operation is a function of the registry
  and returns only the string.
\<close>

theorem command_prompt_listing:
  "(\<exists>cs. mset cs = mset (map snd (items (commands r))) \<and> sorted (map name cs)
      \<and> command_prompt r =
          join newline
            (map (\<lambda>i. str_nat (i + 1) @ ''. '' @ name (cs ! i) @ ''('' @ signature (cs ! i) @ '')'')
               [0..<length cs]))
   \<and> (name ca = ''a'' \<and> name cb = ''b'' \<and> name cc = ''c'' \<longrightarrow>
        command_prompt (register (register (register CommandRegistry_init cb) ca) cc) =
          ''1. a('' @ signature ca @ '')'' @ newline @
          ''2. b('' @ signature cb @ '')'' @ newline @
          ''3. c('' @ signature cc @ '')'')"
proof (intro conjI impI)
  let ?cs = "sort_key name (map snd (items (commands r)))"
  have "mset ?cs = mset (map snd (items (commands r)))" by simp
  moreover have "sorted (map name ?cs)" by simp
  moreover have "command_prompt r =
      join newline
        (map (\<lambda>i. str_nat (i + 1) @ ''. '' @ name (?cs ! i) @ ''('' @ signature (?cs ! i) @ '')'')
           [0..<length ?cs])"
    unfolding command_prompt_def Let_def map_enumerate_nth prompt_line_eq ..
  ultimately show "\<exists>cs. mset cs = mset (map snd (items (commands r))) \<and> sorted (map name cs)
      \<and> command_prompt r =
          join newline
            (map (\<lambda>i. str_nat (i + 1) @ ''. '' @ name (cs ! i) @ ''('' @ signature (cs ! i) @ '')'')
               [0..<length cs])"
    by blast
next
  assume names: "name ca = ''a'' \<and> name cb = ''b'' \<and> name cc = ''c''"
  then have "items (commands (register (register (register CommandRegistry_init cb) ca) cc)) =
      [(''b'', cb), (''a'', ca), (''c'', cc)]"
    by (simp add: items_register CommandRegistry_init_def dict_new_def)
  moreover have "sort_key name [cb, ca, cc] = [ca, cb, cc]"
    using names by simp
  ultimately show "command_prompt (register (register (register CommandRegistry_init cb) ca) cc) =
          ''1. a('' @ signature ca @ '')'' @ newline @
          ''2. b('' @ signature cb @ '')'' @ newline @
          ''3. c('' @ signature cc @ '')''"
    using names
    by (simp add: command_prompt_def enumerate_eq_zip upt_rec prompt_line_eq str_nat_digits)
qed

theorem command_prompt_listing_witness:
  "name (plain_command ''a'' ''A.'') = ''a'' \<and> name (plain_command ''b'' ''B.'') = ''b''
   \<and> name (plain_command ''c'' ''C.'') = ''c''
   \<and> command_prompt
        (register (register (register CommandRegistry_init (plain_command ''b'' ''B.''))
           (plain_command ''a'' ''A.'')) (plain_command ''c'' ''C.'')) =
       ''1. a(x: int, y: _empty)'' @ newline @ ''2. b(x: int, y: _empty)'' @ newline @
       ''3. c(x: int, y: _empty)''"
proof -
  have h: "name (plain_command ''a'' ''A.'') = ''a'' \<and> name (plain_command ''b'' ''B.'') = ''b''
      \<and> name (plain_command ''c'' ''C.'') = ''c''"
    by simp
  have s: "signature (plain_command n d) = ''x: int, y: _empty''" for n d
    by (simp add: plain_command_def)
  from h command_prompt_listing
    [of example_registry "plain_command ''a'' ''A.''" "plain_command ''b'' ''B.''"
      "plain_command ''c'' ''C.''"]
  have "command_prompt
        (register (register (register CommandRegistry_init (plain_command ''b'' ''B.''))
           (plain_command ''a'' ''A.'')) (plain_command ''c'' ''C.'')) =
       ''1. a('' @ signature (plain_command ''a'' ''A.'') @ '')'' @ newline @
       ''2. b('' @ signature (plain_command ''b'' ''B.'') @ '')'' @ newline @
       ''3. c('' @ signature (plain_command ''c'' ''C.'') @ '')''"
    by blast
  then have "command_prompt
        (register (register (register CommandRegistry_init (plain_command ''b'' ''B.''))
           (plain_command ''a'' ''A.'')) (plain_command ''c'' ''C.'')) =
       ''1. a(x: int, y: _empty)'' @ newline @ ''2. b(x: int, y: _empty)'' @ newline @
       ''3. c(x: int, y: _empty)''"
    by (simp add: s)
  with h show ?thesis by blast
qed

text \<open>
  C8. Every operation of the registry keeps the invariant that each key of the mapping is
  the name of the command stored under it: \<^verbatim>\<open>register\<close>, \<^verbatim>\<open>unregister\<close>,
  \<^verbatim>\<open>import_commands\<close> and \<^verbatim>\<open>reload_commands\<close> (whether they return or raise) keep it, and
  the registry \<^verbatim>\<open>for_tools\<close> builds has it. \<^verbatim>\<open>get\<close>, \<^verbatim>\<open>call\<close> and \<^verbatim>\<open>command_prompt\<close> depend on
  the entries present in the mapping alone.
\<close>

theorem keys_are_names_preserved:
  "(keys_are_names r \<longrightarrow>
      keys_are_names (register r c)
      \<and> (\<forall>r'. unregister r n = Inr r' \<longrightarrow> keys_are_names r')
      \<and> keys_are_names (registry_of (import_commands L r m))
      \<and> keys_are_names (registry_of (reload_commands L r)))
   \<and> keys_are_names (registry_of (for_tools L tools))
   \<and> (items (commands r1) = items (commands r2) \<longrightarrow>
        get r1 n = get r2 n \<and> call r1 n kwargs w = call r2 n kwargs w
        \<and> command_prompt r1 = command_prompt r2)"
proof -
  have same: "get r1 n = get r2 n \<and> call r1 n kwargs w = call r2 n kwargs w
      \<and> command_prompt r1 = command_prompt r2"
    if eq: "items (commands r1) = items (commands r2)"
  proof -
    from eq have "dict_contains (commands r1) = dict_contains (commands r2)"
      and "dict_getitem (commands r1) = dict_getitem (commands r2)"
      by (simp_all add: fun_eq_iff dict_contains_def dict_getitem_def)
    with eq show ?thesis
      by (simp add: get_def call_def command_prompt_def split: option.splits)
  qed
  have "keys_are_names r' " if "keys_are_names r" and "unregister r n = Inr r'" for r'
    using that by (rule inv_unregister)
  with same show ?thesis
    by (simp add: inv_register inv_import_commands inv_reload_commands inv_for_tools)
qed

theorem keys_are_names_preserved_witness:
  "keys_are_names example_registry
   \<and> keys_are_names (register example_registry (plain_command ''b'' ''B.''))
   \<and> unregister example_registry ''a'' = Inr \<lparr>commands = \<lparr>dk_entries = [None], dk_usable = 4\<rparr>\<rparr>
   \<and> keys_are_names
       (\<lparr>commands = \<lparr>dk_entries = [None], dk_usable = 4\<rparr>\<rparr> :: (int, string list) CommandRegistry)
   \<and> keys_are_names (registry_of (import_commands example_loader example_registry ''tools''))
   \<and> keys_are_names (registry_of (reload_commands example_loader example_registry))
   \<and> items (commands example_registry) =
       items (commands (register example_registry (plain_command ''a'' ''First.'')))
   \<and> get example_registry ''a'' = get (register example_registry (plain_command ''a'' ''First.'')) ''a''"
proof -
  let ?q = "\<lparr>commands = \<lparr>dk_entries = [None], dk_usable = 4\<rparr>\<rparr> :: (int, string list) CommandRegistry"
  have r: "example_registry =
      \<lparr>commands = \<lparr>dk_entries = [Some (''a'', plain_command ''a'' ''First.'')], dk_usable = 4\<rparr>\<rparr>"
    by (simp add: example_registry_def registry_with_one)
  have its: "items (commands example_registry) = [(''a'', plain_command ''a'' ''First.'')]"
    by (simp add: r)
  have h: "keys_are_names example_registry"
    by (simp add: keys_are_names_def its)
  have u: "unregister example_registry ''a'' = Inr ?q"
    by (simp add: unregister_def dict_contains_def its) (simp add: r dict_delitem_def)
  have same: "items (commands example_registry) =
      items (commands (register example_registry (plain_command ''a'' ''First.'')))"
    by (simp add: items_register its)
  note t = keys_are_names_preserved
    [of example_registry "plain_command ''b'' ''B.''" "''a''" example_loader "''tools''" None
      example_registry "register example_registry (plain_command ''a'' ''First.'')" "[]" "[]"]
  from t h have a: "keys_are_names (register example_registry (plain_command ''b'' ''B.''))"
    and b: "keys_are_names (registry_of (import_commands example_loader example_registry ''tools''))"
    and c: "keys_are_names (registry_of (reload_commands example_loader example_registry))"
    by blast+
  from t h u have d: "keys_are_names ?q" by blast
  from t same
  have e: "get example_registry ''a'' = get (register example_registry (plain_command ''a'' ''First.'')) ''a''"
    by blast
  from h a u d b c same e show ?thesis by (intro conjI)
qed

text \<open>
  C9. \<^verbatim>\<open>for_tools\<close> makes an empty registry and imports the listed units one after the
  other, in the order of the list, \<^verbatim>\<open>None\<close> counting as the empty list. When every import
  returns, the loader has been asked for exactly the listed units in order, and the
  mapping is the union of the commands discoverable in them, a later unit overriding an
  earlier one on a shared name. When an import raises, that exception is the outcome, the
  units before it have been imported and their commands stay registered, and the units
  after it are not imported.
\<close>

theorem for_tools_imports_in_order:
  "for_tools L None = Returns CommandRegistry_init []
   \<and> for_tools L None = for_tools L (Some [])
   \<and> (for_tools L (Some tools) = Returns r evs \<longrightarrow>
        evs = map Import_module tools
        \<and> map_of (items (commands r)) = foldl (++) Map.empty (map (unit_commands L) tools))
   \<and> (for_tools L (Some [unitA, unitB]) = Returns r2 evs2 \<longrightarrow>
        map_of (items (commands r2)) = unit_commands L unitA ++ unit_commands L unitB)
   \<and> (for_tools L (Some tools) = Raises e r evs \<longrightarrow>
        (\<exists>pre m post r1. tools = pre @ m # post
           \<and> for_tools L (Some pre) = Returns r1 (map Import_module pre)
           \<and> import_commands L r1 m = Raises e r [Import_module m]
           \<and> evs = map Import_module (pre @ [m])))"
proof (intro conjI impI)
  show "for_tools L None = Returns CommandRegistry_init []"
    by (simp add: for_tools_def)
  show "for_tools L None = for_tools L (Some [])"
    by (simp add: for_tools_def)
next
  assume "for_tools L (Some tools) = Returns r evs"
  then have run: "import_all L CommandRegistry_init tools = Returns r evs"
    by (simp add: for_tools_def)
  from import_all_returns [OF run] show "evs = map Import_module tools" by simp
  from import_all_returns [OF run]
  show "map_of (items (commands r)) = foldl (++) Map.empty (map (unit_commands L) tools)"
    by (simp add: CommandRegistry_init_def dict_new_def)
next
  assume "for_tools L (Some [unitA, unitB]) = Returns r2 evs2"
  then have "import_all L CommandRegistry_init [unitA, unitB] = Returns r2 evs2"
    by (simp add: for_tools_def)
  from import_all_returns [OF this]
  show "map_of (items (commands r2)) = unit_commands L unitA ++ unit_commands L unitB"
    by (simp add: CommandRegistry_init_def dict_new_def)
next
  assume "for_tools L (Some tools) = Raises e r evs"
  then have "import_all L CommandRegistry_init tools = Raises e r evs"
    by (simp add: for_tools_def)
  from import_all_raises [OF this]
  show "\<exists>pre m post r1. tools = pre @ m # post
           \<and> for_tools L (Some pre) = Returns r1 (map Import_module pre)
           \<and> import_commands L r1 m = Raises e r [Import_module m]
           \<and> evs = map Import_module (pre @ [m])"
    by (simp add: for_tools_def)
qed

theorem for_tools_imports_in_order_witness:
  "for_tools example_loader (Some [''plugin'', ''override'']) =
     Returns (registry_with [subclass_command ''override'' ''greet''])
       [Import_module ''plugin'', Import_module ''override'']
   \<and> map_of [(''greet'', subclass_command ''override'' ''greet'')] =
       unit_commands example_loader ''plugin'' ++ unit_commands example_loader ''override''
   \<and> for_tools example_loader (Some [''tools'', ''nowhere'', ''plugin'']) =
       Raises (Raised ''ModuleNotFoundError'') (registry_with [subclass_command ''tools'' ''echo''])
         [Import_module ''tools'', Import_module ''nowhere'']
   \<and> (\<exists>pre m post r1. [''tools'', ''nowhere'', ''plugin''] = pre @ m # post
         \<and> for_tools example_loader (Some pre) = Returns r1 (map Import_module pre)
         \<and> [Import_module ''tools'', Import_module ''nowhere''] = map Import_module (pre @ [m]))"
proof -
  let ?r = "registry_with [subclass_command ''override'' ''greet'']"
  let ?q = "registry_with [subclass_command ''tools'' ''echo'']"
  have twice: "register (register CommandRegistry_init (plain_command ''greet'' ''Greets.''))
      (subclass_command ''override'' ''greet'') = ?r"
    by (simp add: registry_with_def register_def dict_setitem_twice)
  have ok: "for_tools example_loader (Some [''plugin'', ''override'']) =
      Returns ?r [Import_module ''plugin'', Import_module ''override'']"
    by (simp add: for_tools_def import_plugin import_override twice)
  have bad: "for_tools example_loader (Some [''tools'', ''nowhere'', ''plugin'']) =
      Raises (Raised ''ModuleNotFoundError'') ?q [Import_module ''tools'', Import_module ''nowhere'']"
    by (simp add: for_tools_def import_tools import_nowhere registry_with_def)
  have its: "items (commands ?r) = [(''greet'', subclass_command ''override'' ''greet'')]"
    by (simp add: registry_with_one)
  note t1 = for_tools_imports_in_order [of example_loader "[''plugin'', ''override'']" ?r
      "[Import_module ''plugin'', Import_module ''override'']" "''plugin''" "''override''" ?r
      "[Import_module ''plugin'', Import_module ''override'']" "Raised ''ModuleNotFoundError''"]
  from t1 have "for_tools example_loader (Some [''plugin'', ''override'']) =
        Returns ?r [Import_module ''plugin'', Import_module ''override''] \<longrightarrow>
      map_of (items (commands ?r)) =
        unit_commands example_loader ''plugin'' ++ unit_commands example_loader ''override''"
    by (rule conjunct1 [OF conjunct2 [OF conjunct2 [OF conjunct2]]])
  from this ok have "map_of (items (commands ?r)) =
      unit_commands example_loader ''plugin'' ++ unit_commands example_loader ''override''"
    by (rule mp)
  then have union: "map_of [(''greet'', subclass_command ''override'' ''greet'')] =
      unit_commands example_loader ''plugin'' ++ unit_commands example_loader ''override''"
    by (simp only: its)
  note t2 = for_tools_imports_in_order [of example_loader "[''tools'', ''nowhere'', ''plugin'']" ?q
      "[Import_module ''tools'', Import_module ''nowhere'']" "''plugin''" "''override''" ?r
      "[Import_module ''plugin'', Import_module ''override'']" "Raised ''ModuleNotFoundError''"]
  from t2 have "for_tools example_loader (Some [''tools'', ''nowhere'', ''plugin'']) =
        Raises (Raised ''ModuleNotFoundError'') ?q
          [Import_module ''tools'', Import_module ''nowhere''] \<longrightarrow>
      (\<exists>pre m post r1. [''tools'', ''nowhere'', ''plugin''] = pre @ m # post
         \<and> for_tools example_loader (Some pre) = Returns r1 (map Import_module pre)
         \<and> import_commands example_loader r1 m =
             Raises (Raised ''ModuleNotFoundError'') ?q [Import_module m]
         \<and> [Import_module ''tools'', Import_module ''nowhere''] = map Import_module (pre @ [m]))"
    by (rule conjunct2 [OF conjunct2 [OF conjunct2 [OF conjunct2]]])
  from this bad have "\<exists>pre m post r1. [''tools'', ''nowhere'', ''plugin''] = pre @ m # post
         \<and> for_tools example_loader (Some pre) = Returns r1 (map Import_module pre)
         \<and> import_commands example_loader r1 m =
             Raises (Raised ''ModuleNotFoundError'') ?q [Import_module m]
         \<and> [Import_module ''tools'', Import_module ''nowhere''] = map Import_module (pre @ [m])"
    by (rule mp)
  then obtain pre m post r1
    where "[''tools'', ''nowhere'', ''plugin''] = pre @ m # post"
      and "for_tools example_loader (Some pre) = Returns r1 (map Import_module pre)"
      and "[Import_module ''tools'', Import_module ''nowhere''] = map Import_module (pre @ [m])"
    by (elim exE conjE)
  then have stop: "\<exists>pre m post r1. [''tools'', ''nowhere'', ''plugin''] = pre @ m # post
         \<and> for_tools example_loader (Some pre) = Returns r1 (map Import_module pre)
         \<and> [Import_module ''tools'', Import_module ''nowhere''] = map Import_module (pre @ [m])"
    by (intro exI conjI)
  from ok union bad stop show ?thesis by (intro conjI)
qed




end
